theory Spec2Isabelle
  imports Complex_Main
begin

section \<open>Time, numbers and documents\<close>

text \<open>
  A JavaScript \<open>Date\<close> is its \<open>getTime()\<close> value: milliseconds since the epoch, an
  integer. The server's zone is a fixed offset \<open>tz\<close> in milliseconds (local time is UTC
  plus \<open>tz\<close>); zones with daylight saving are outside this development. Numbers that
  the code divides are exact reals here, where the program has IEEE doubles.
\<close>

definition msPerDay :: int where
  "msPerDay = 24 * 60 * 60 * 1000"

text \<open>\<open>d.setHours(0, 0, 0, 0)\<close>: the local midnight that starts the local day of \<open>t\<close>.\<close>

definition setHours0 :: "int \<Rightarrow> int \<Rightarrow> int" where
  "setHours0 tz t = ((t + tz) div msPerDay) * msPerDay - tz"

text \<open>
  \<open>d.toISOString().split('T')[0]\<close>: the UTC calendar day of \<open>t\<close>. The day is kept as
  its number since the epoch, which stands for the string \<open>YYYY-MM-DD\<close>.
\<close>

definition isoDate :: "int \<Rightarrow> int" where
  "isoDate t = t div msPerDay"

text \<open>\<open>Math.round\<close>: the nearest integer, a half rounding up.\<close>

definition Math_round :: "real \<Rightarrow> int" where
  "Math_round x = \<lfloor>x + 1 / 2\<rfloor>"

text \<open>
  The tracking entry document of \<open>models/TrackingEntry.js\<close>; \<open>notes\<close>, \<open>value\<close> and
  the timestamps play no part in the analytics below. \<open>mood\<close> and \<open>difficulty\<close> are a
  number or \<open>null\<close>.
\<close>

record TrackingEntry =
  habitId :: nat
  userId :: nat
  date :: int
  completed :: bool
  mood :: "int option"
  difficulty :: "int option"

text \<open>The habit document of \<open>models/Habit.js\<close>, with the fields the analytics read.\<close>

record Habit =
  habit_id :: nat
  habit_userId :: nat
  name :: string
  category :: string
  color :: string
  isActive :: bool
  streakTarget :: nat

section \<open>The model statics of TrackingEntry\<close>

text \<open>
  \<open>find({habitId, completed: true}).sort({date: -1}).limit(100)\<close>: the completed entries
  of the habit, latest first, at most one hundred of them.
\<close>

definition recentCompleted :: "TrackingEntry list \<Rightarrow> nat \<Rightarrow> TrackingEntry list" where
  "recentCompleted db hid =
     take 100 (sort_key (\<lambda>e. - date e) (filter (\<lambda>e. habitId e = hid \<and> completed e) db))"

text \<open>
  The \<open>for\<close> loop of \<open>getCurrentStreak\<close>: an entry on the awaited day counts and moves
  the awaited day one back, an earlier entry ends the loop (\<open>break\<close>), a later one is
  passed over.
\<close>

fun streakLoop :: "int \<Rightarrow> TrackingEntry list \<Rightarrow> int \<Rightarrow> nat \<Rightarrow> nat" where
  "streakLoop tz [] currentDate streak = streak"
| "streakLoop tz (entry # rest) currentDate streak =
     (let entryDate = setHours0 tz (date entry) in
      if entryDate = currentDate then streakLoop tz rest (currentDate - msPerDay) (streak + 1)
      else if entryDate < currentDate then streak
      else streakLoop tz rest currentDate streak)"

definition getCurrentStreak :: "int \<Rightarrow> int \<Rightarrow> TrackingEntry list \<Rightarrow> nat \<Rightarrow> nat" where
  "getCurrentStreak tz now db hid =
     (let entries = recentCompleted db hid in
      if length entries = 0 then 0
      else
        let today = setHours0 tz now;
            todayEntry = find (\<lambda>entry. setHours0 tz (date entry) = today) entries;
            currentDate = (if todayEntry \<noteq> None then today else today - msPerDay)
        in streakLoop tz entries currentDate 0)"

text \<open>
  \<open>$avg\<close> of the aggregation pipeline: the mean of the numeric values of the field over
  the group, \<open>null\<close> values left out, and \<open>null\<close> when no document has a number there.
\<close>

definition mongoAvg :: "int option list \<Rightarrow> real option" where
  "mongoAvg vs =
     (let nums = [v. Some v \<leftarrow> vs] in
      if nums = [] then None else Some (real_of_int (sum_list nums) / real (length nums)))"

record HabitAnalytics =
  ha_totalDays :: nat
  ha_completedDays :: nat
  ha_averageMood :: "real option"
  ha_averageDifficulty :: "real option"
  ha_currentStreak :: nat
  ha_completionRate :: real

text \<open>
  \<open>getHabitAnalytics(habitId, days)\<close>: the \<open>$match\<close> keeps the entries of the habit dated
  in the closed window, the \<open>$group\<close> yields one document, or none when nothing matched.
\<close>

definition getHabitAnalytics ::
    "int \<Rightarrow> int \<Rightarrow> TrackingEntry list \<Rightarrow> nat \<Rightarrow> int \<Rightarrow> HabitAnalytics" where
  "getHabitAnalytics tz now db hid ndays =
     (let endDate = now;
          startDate = endDate - ndays * msPerDay;
          matched = filter (\<lambda>e. habitId e = hid \<and> startDate \<le> date e \<and> date e \<le> endDate) db;
          currentStreak = getCurrentStreak tz now db hid
      in if matched = []
         then \<lparr>ha_totalDays = 0, ha_completedDays = 0, ha_averageMood = None,
               ha_averageDifficulty = None, ha_currentStreak = currentStreak,
               ha_completionRate = 0\<rparr>
         else \<lparr>ha_totalDays = length matched,
               ha_completedDays = length (filter completed matched),
               ha_averageMood = mongoAvg (map mood matched),
               ha_averageDifficulty = mongoAvg (map difficulty matched),
               ha_currentStreak = currentStreak,
               ha_completionRate =
                 real (length (filter completed matched)) / real (length matched)\<rparr>)"

section \<open>Request parameters\<close>

text \<open>
  A query parameter is absent or a string. \<open>parseInt\<close> skips leading white space, reads
  an optional sign, takes radix 16 after a \<open>0x\<close> prefix and radix 10 otherwise, and reads
  the longest run of digits; with no digit the result is \<open>NaN\<close>, here \<open>None\<close>.
\<close>

definition isWhiteSpace :: "char \<Rightarrow> bool" where
  "isWhiteSpace c = (of_char c \<in> {9, 10, 11, 12, 13, 32 :: nat})"

definition digitOf :: "nat \<Rightarrow> char \<Rightarrow> nat option" where
  "digitOf radix c =
     (let n = (of_char c :: nat);
          v = (if 48 \<le> n \<and> n \<le> 57 then Some (n - 48)
               else if 97 \<le> n \<and> n \<le> 122 then Some (n - 87)
               else if 65 \<le> n \<and> n \<le> 90 then Some (n - 55)
               else None)
      in case v of None \<Rightarrow> None | Some d \<Rightarrow> if d < radix then Some d else None)"

fun parseDigits :: "nat \<Rightarrow> string \<Rightarrow> nat option \<Rightarrow> nat option" where
  "parseDigits radix [] acc = acc"
| "parseDigits radix (c # cs) acc =
     (case digitOf radix c of
        None \<Rightarrow> acc
      | Some d \<Rightarrow> parseDigits radix cs (Some (radix * (case acc of None \<Rightarrow> 0 | Some a \<Rightarrow> a) + d)))"

definition parseInt :: "string \<Rightarrow> int option" where
  "parseInt s =
     (let s1 = dropWhile isWhiteSpace s;
          sign = (case s1 of c # r \<Rightarrow> if c = CHR ''-'' then - 1 else 1 | [] \<Rightarrow> (1 :: int));
          s2 = (case s1 of c # r \<Rightarrow> if c = CHR ''-'' \<or> c = CHR ''+'' then r else s1 | [] \<Rightarrow> s1);
          hex = (case s2 of a # b # r \<Rightarrow> a = CHR ''0'' \<and> (b = CHR ''x'' \<or> b = CHR ''X'') | _ \<Rightarrow> False);
          radix = (if hex then 16 else 10);
          s3 = (if hex then drop 2 s2 else s2)
      in map_option (\<lambda>n. sign * int n) (parseDigits radix s3 None))"

text \<open>
  \<open>const { days = 30 } = req.query\<close>: the default stands in for an absent parameter only;
  \<open>parseInt\<close> then reads the number 30 through its string.
\<close>

definition queryDays :: "string option \<Rightarrow> string" where
  "queryDays q = (case q of None \<Rightarrow> ''30'' | Some s \<Rightarrow> s)"

text \<open>The \<open>switch (period)\<close> of the trends route, and its group size.\<close>

definition periodDays :: "string \<Rightarrow> int" where
  "periodDays period =
     (if period = ''week'' then 7
      else if period = ''month'' then 30
      else if period = ''quarter'' then 90
      else if period = ''year'' then 365
      else 30)"

definition groupSizeOf :: "string \<Rightarrow> int" where
  "groupSizeOf groupBy = (if groupBy = ''day'' then 1 else if groupBy = ''week'' then 7 else 30)"

text \<open>
  A handler answers with a body or fails: 404 for a habit that is not the user's, 500
  from its \<open>catch\<close>. Mongoose refuses an invalid date in a query condition with a
  CastError, which the \<open>catch\<close> turns into the 500.
\<close>

datatype error = NotFound | ServerError

section \<open>Predictions and insights\<close>

definition milestones :: "nat list" where
  "milestones = [7, 14, 21, 30, 60, 90, 180, 365]"

record Milestone =
  days :: nat
  remaining :: nat

definition getNextMilestone :: "nat \<Rightarrow> Milestone option" where
  "getNextMilestone currentStreak =
     (case find (\<lambda>m. m > currentStreak) milestones of
        Some nextMilestone \<Rightarrow>
          Some \<lparr>days = nextMilestone, remaining = nextMilestone - currentStreak\<rparr>
      | None \<Rightarrow> None)"

record StreakTarget =
  target :: nat
  current :: nat
  daysRemaining :: nat
  estimatedDate :: "int option"

record Predictions =
  streakTargetPrediction :: "StreakTarget option"
  nextMilestone :: "Milestone option"
  probabilityOfSuccess :: int

text \<open>
  \<open>generatePredictions\<close>; \<open>now\<close> is \<open>Date.now()\<close>. The average gap that the source
  also computes is never read. \<open>habit.streakTarget || 7\<close> replaces a zero target.
\<close>

definition generatePredictions ::
    "int \<Rightarrow> TrackingEntry list \<Rightarrow> Habit \<Rightarrow> nat \<Rightarrow> Predictions" where
  "generatePredictions now entries habit currentStreak =
     (let completedEntries = filter completed entries in
      if length completedEntries = 0
      then \<lparr>streakTargetPrediction = None, nextMilestone = None, probabilityOfSuccess = 0\<rparr>
      else
        let completionRate = real (length completedEntries) / real (length entries);
            target = (if streakTarget habit = 0 then 7 else streakTarget habit);
            daysToTarget = nat (max 0 (int target - int currentStreak))
        in \<lparr>streakTargetPrediction =
               Some \<lparr>target = target, current = currentStreak, daysRemaining = daysToTarget,
                      estimatedDate =
                        (if daysToTarget > 0
                         then Some (isoDate (now + int daysToTarget * msPerDay))
                         else None)\<rparr>,
             nextMilestone = getNextMilestone currentStreak,
             probabilityOfSuccess = Math_round (completionRate * 100)\<rparr>)"

text \<open>
  An insight's message is a template with numbers filled in; the template is a
  constructor here and the numbers are its arguments.
\<close>

datatype insightType = Success | Warning | Danger | Info

datatype insightMessage =
    ExcellentRate int
  | GoodProgressRate int
  | LowRate int
  | AmazingStreak nat
  | StartBuilding
  | ConsistentWeek nat nat

record Insight =
  insight_type :: insightType
  message :: insightMessage
  actionable :: bool

definition rateInsights :: "real \<Rightarrow> Insight list" where
  "rateInsights completionRate =
     (if completionRate \<ge> 80
      then [\<lparr>insight_type = Success, message = ExcellentRate (Math_round completionRate),
             actionable = False\<rparr>]
      else if completionRate \<ge> 60
      then [\<lparr>insight_type = Warning, message = GoodProgressRate (Math_round completionRate),
             actionable = True\<rparr>]
      else if completionRate < 40
      then [\<lparr>insight_type = Danger, message = LowRate (Math_round completionRate),
             actionable = True\<rparr>]
      else [])"

definition streakInsights :: "nat \<Rightarrow> Insight list" where
  "streakInsights currentStreak =
     (if currentStreak \<ge> 7
      then [\<lparr>insight_type = Success, message = AmazingStreak currentStreak, actionable = False\<rparr>]
      else if currentStreak = 0
      then [\<lparr>insight_type = Info, message = StartBuilding, actionable = True\<rparr>]
      else [])"

definition patternInsights :: "TrackingEntry list \<Rightarrow> Insight list" where
  "patternInsights entries =
     (let recentEntries = drop (length entries - 7) entries;
          recentCompletions = length (filter completed recentEntries)
      in if real recentCompletions > real (length recentEntries) * 0.8
         then [\<lparr>insight_type = Success,
                message = ConsistentWeek recentCompletions (length recentEntries),
                actionable = False\<rparr>]
         else [])"

text \<open>
  \<open>generateInsights\<close> pushes onto one list in three steps, in this order; each step is
  one of the three functions above.
\<close>

definition generateInsights :: "TrackingEntry list \<Rightarrow> Habit \<Rightarrow> real \<Rightarrow> nat \<Rightarrow> Insight list" where
  "generateInsights entries habit completionRate currentStreak =
     rateInsights completionRate @ streakInsights currentStreak @ patternInsights entries"

section \<open>The analytics routes\<close>

text \<open>
  Every route reads the clock once (\<open>now\<close>), the Habit collection (\<open>habitsDb\<close>) and the
  TrackingEntry collection (\<open>db\<close>) on behalf of the authenticated \<open>user\<close>.
\<close>

definition activeHabits :: "Habit list \<Rightarrow> nat \<Rightarrow> Habit list" where
  "activeHabits habitsDb user = filter (\<lambda>h. habit_userId h = user \<and> isActive h) habitsDb"

subsection \<open>GET /api/analytics/overview\<close>




subsection \<open>GET /api/analytics/habit/:habitId\<close>

record Summary =
  totalDays :: int
  trackedDays :: nat
  completedDays :: nat
  completionRate :: int
  currentStreak :: nat
  longestStreak :: nat
  averageMood :: "real option"
  averageDifficulty :: "real option"

record HabitReport =
  summary :: Summary
  predictions :: Predictions
  insights :: "Insight list"

text \<open>
  The local variables of the handler, each a function of the entries found. The daily
  and weekly chart data of the response are left out: no statement below reads them.
\<close>

definition habitRate :: "TrackingEntry list \<Rightarrow> real" where
  "habitRate entries =
     (let trackedDays = length entries;
          completedDays = length (filter completed entries)
      in if trackedDays > 0 then (real completedDays / real trackedDays) * 100 else 0)"

fun longestLoop :: "TrackingEntry list \<Rightarrow> nat \<Rightarrow> nat \<Rightarrow> nat" where
  "longestLoop [] longest tempStreak = longest"
| "longestLoop (entry # rest) longest tempStreak =
     (if completed entry
      then longestLoop rest (max longest (tempStreak + 1)) (tempStreak + 1)
      else longestLoop rest longest 0)"

text \<open>A number is truthy unless it is \<open>null\<close> or zero.\<close>

definition truthy :: "int option \<Rightarrow> bool" where
  "truthy v = (case v of None \<Rightarrow> False | Some n \<Rightarrow> n \<noteq> 0)"

definition fieldAverage :: "(TrackingEntry \<Rightarrow> int option) \<Rightarrow> TrackingEntry list \<Rightarrow> real option" where
  "fieldAverage field entries =
     (let fieldEntries = filter (\<lambda>e. truthy (field e) \<and> completed e) entries in
      if length fieldEntries > 0
      then Some (real_of_int (sum_list (map (\<lambda>e. case field e of None \<Rightarrow> 0 | Some n \<Rightarrow> n)
                                           fieldEntries))
                 / real (length fieldEntries))
      else None)"

text \<open>\<open>avg ? Math.round(avg * 10) / 10 : null\<close> of the summary.\<close>

definition roundedAverage :: "real option \<Rightarrow> real option" where
  "roundedAverage avg =
     (case avg of
        None \<Rightarrow> None
      | Some a \<Rightarrow> if a = 0 then None else Some (real_of_int (Math_round (a * 10)) / 10))"

definition habitReport ::
    "int \<Rightarrow> int \<Rightarrow> Habit list \<Rightarrow> TrackingEntry list \<Rightarrow> nat \<Rightarrow> nat \<Rightarrow> string option
      \<Rightarrow> error + HabitReport" where
  "habitReport tz now habitsDb db user hid daysQ =
     (let days = queryDays daysQ in
      case find (\<lambda>h. habit_id h = hid \<and> habit_userId h = user) habitsDb of
        None \<Rightarrow> Inl NotFound
      | Some habit \<Rightarrow>
          (case parseInt days of
             None \<Rightarrow> Inl ServerError
           | Some ndays \<Rightarrow>
               let endDate = now;
                   startDate = endDate - ndays * msPerDay;
                   entries = sort_key date
                     (filter (\<lambda>e. habitId e = hid \<and> userId e = user
                                   \<and> startDate \<le> date e \<and> date e \<le> endDate) db);
                   rate = habitRate entries;
                   streak = getCurrentStreak tz now db hid
               in Inr \<lparr>summary =
                          \<lparr>totalDays = ndays,
                           trackedDays = length entries,
                           completedDays = length (filter completed entries),
                           completionRate = Math_round rate,
                           currentStreak = streak,
                           longestStreak = longestLoop entries 0 0,
                           averageMood = roundedAverage (fieldAverage mood entries),
                           averageDifficulty = roundedAverage (fieldAverage difficulty entries)\<rparr>,
                        predictions = generatePredictions now entries habit streak,
                        insights = generateInsights entries habit rate streak\<rparr>))"

subsection \<open>GET /api/analytics/heatmap\<close>












text \<open>
  \<open>populate('habitId', 'name color category')\<close> puts the habit document in place of the
  reference, and \<open>null\<close> where no habit has that id; reading \<open>_id\<close> of \<open>null\<close> throws.
\<close>

definition populate :: "Habit list \<Rightarrow> TrackingEntry \<Rightarrow> Habit option" where
  "populate habitsDb e = find (\<lambda>h. habit_id h = habitId e) habitsDb"






subsection \<open>GET /api/analytics/trends\<close>

record TrendBucket =
  tb_period :: string
  tb_startDate :: int
  tb_endDate :: int
  totalEntries :: nat
  completedEntries :: nat
  tb_completionRate :: real
  categoryBreakdown :: "string \<rightharpoonup> nat \<times> nat"

text \<open>
  The body of \<open>habits.forEach\<close>: the breakdown maps a category to its \<open>(total, completed)\<close>.
\<close>

definition categoryStep ::
    "TrackingEntry list \<Rightarrow> (string \<rightharpoonup> nat \<times> nat) \<Rightarrow> Habit \<Rightarrow> (string \<rightharpoonup> nat \<times> nat)" where
  "categoryStep completedInPeriod acc habit =
     (let cat = (if category habit = [] then ''other'' else category habit);
          old = (case acc cat of None \<Rightarrow> (0, 0) | Some p \<Rightarrow> p);
          habitEntries = filter (\<lambda>e. habitId e = habit_id habit) completedInPeriod
      in acc(cat \<mapsto> (fst old + 1, snd old + length habitEntries)))"

text \<open>
  One round of the loop. The comparison of ids in the breakdown reads \<open>_id\<close> of every
  completed entry of the period once per active habit, and throws on an entry whose
  habit no longer exists.
\<close>

definition trendBucket ::
    "Habit list \<Rightarrow> string \<Rightarrow> Habit list \<Rightarrow> TrackingEntry list \<Rightarrow> int \<Rightarrow> int \<Rightarrow> int
      \<Rightarrow> error + TrendBucket" where
  "trendBucket habitsDb groupBy habits entries startDate endDate i =
     (let periodStart = startDate + i * msPerDay;
          periodEnd = min (periodStart + groupSizeOf groupBy * msPerDay) endDate;
          periodEntries = filter (\<lambda>e. date e \<ge> periodStart \<and> date e < periodEnd) entries;
          completedInPeriod = filter completed periodEntries
      in if habits \<noteq> [] \<and> list_ex (\<lambda>e. populate habitsDb e = None) completedInPeriod
         then Inl ServerError
         else Inr \<lparr>tb_period = groupBy,
                   tb_startDate = isoDate periodStart,
                   tb_endDate = isoDate periodEnd,
                   totalEntries = length periodEntries,
                   completedEntries = length completedInPeriod,
                   tb_completionRate =
                     (if length periodEntries > 0
                      then (real (length completedInPeriod) / real (length periodEntries)) * 100
                      else 0),
                   categoryBreakdown = foldl (categoryStep completedInPeriod) Map.empty habits\<rparr>)"

text \<open>The loop \<open>for (let i = 0; i < days; i += groupSize)\<close>.\<close>

function trendsLoop ::
    "Habit list \<Rightarrow> string \<Rightarrow> Habit list \<Rightarrow> TrackingEntry list \<Rightarrow> int \<Rightarrow> int \<Rightarrow> int \<Rightarrow> int
      \<Rightarrow> error + TrendBucket list" where
  "trendsLoop habitsDb groupBy habits entries startDate endDate ndays i =
     (if i < ndays
      then (case trendBucket habitsDb groupBy habits entries startDate endDate i of
              Inl err \<Rightarrow> Inl err
            | Inr b \<Rightarrow>
                (case trendsLoop habitsDb groupBy habits entries startDate endDate ndays
                        (i + groupSizeOf groupBy) of
                   Inl err \<Rightarrow> Inl err
                 | Inr bs \<Rightarrow> Inr (b # bs)))
      else Inr [])"
  by pat_completeness auto
termination
  by (relation "measure (\<lambda>(d, g, h, e, s, t, ndays, i). nat (ndays - i))")
     (auto simp: groupSizeOf_def)

declare trendsLoop.simps [simp del]

text \<open>The entries that the trends route reads, and its answer.\<close>

definition trendsEntries :: "int \<Rightarrow> TrackingEntry list \<Rightarrow> nat \<Rightarrow> int \<Rightarrow> TrackingEntry list" where
  "trendsEntries now db user ndays =
     filter (\<lambda>e. userId e = user \<and> now - ndays * msPerDay \<le> date e \<and> date e \<le> now) db"

definition trendsRoute ::
    "int \<Rightarrow> Habit list \<Rightarrow> TrackingEntry list \<Rightarrow> nat \<Rightarrow> string option \<Rightarrow> string option
      \<Rightarrow> error + TrendBucket list" where
  "trendsRoute now habitsDb db user periodQ groupByQ =
     (let period = (case periodQ of None \<Rightarrow> ''month'' | Some p \<Rightarrow> p);
          groupBy = (case groupByQ of None \<Rightarrow> ''week'' | Some g \<Rightarrow> g);
          ndays = periodDays period;
          endDate = now;
          startDate = endDate - ndays * msPerDay;
          habits = activeHabits habitsDb user;
          entries = trendsEntries now db user ndays
      in trendsLoop habitsDb groupBy habits entries startDate endDate ndays 0)"

section \<open>Notions of the specification and sample data\<close>


definition someHabit :: Habit where
  "someHabit = \<lparr>habit_id = 1, habit_userId = 1, name = ''read'', category = ''learning'',
                color = ''#3B82F6'', isActive = True, streakTarget = 7\<rparr>"



text \<open>
  Sample entries of habit 1, dated at UTC midnight of a day number: a run of 101
  completed days, and two completed days after a day that was tracked but not done.
\<close>

definition dayEntry :: "nat \<Rightarrow> int \<Rightarrow> bool \<Rightarrow> TrackingEntry" where
  "dayEntry hid d c =
     \<lparr>habitId = hid, userId = 1, date = d * msPerDay, completed = c, mood = None,
      difficulty = None\<rparr>"



text \<open>
  The records present in the window of the habit route for \<open>ndays\<close> days, and those
  of the overview route, which keeps the entries of the active habits.
\<close>

definition habitWindow :: "int \<Rightarrow> TrackingEntry list \<Rightarrow> nat \<Rightarrow> nat \<Rightarrow> int \<Rightarrow> TrackingEntry list" where
  "habitWindow now db user hid ndays =
     filter (\<lambda>e. habitId e = hid \<and> userId e = user
                  \<and> now - ndays * msPerDay \<le> date e \<and> date e \<le> now) db"





definition moodDb :: "TrackingEntry list" where
  "moodDb =
     [\<lparr>habitId = 1, userId = 1, date = 19999 * msPerDay, completed = False, mood = Some 1,
       difficulty = Some 2\<rparr>,
      \<lparr>habitId = 1, userId = 1, date = 20000 * msPerDay, completed = True, mood = Some 5,
       difficulty = Some 4\<rparr>]"


text \<open>One record of habit 1, dated at the very instant of the request.\<close>

definition midnightDb :: "TrackingEntry list" where
  "midnightDb = [dayEntry 1 20000 True]"

section \<open>Auxiliary facts\<close>



lemma parseInt_30: "parseInt ''30'' = Some 30"
  by (simp add: parseInt_def digitOf_def isWhiteSpace_def)






lemma msPerDay_pos: "0 < msPerDay"
  by (simp add: msPerDay_def)


lemma streakLoop_le: "streakLoop tz es cur s \<le> s + length es"
proof (induction es arbitrary: cur s)
  case Nil
  show ?case by simp
next
  case (Cons e es)
  have a: "streakLoop tz es (cur - msPerDay) (s + 1) \<le> s + 1 + length es"
    by (rule Cons.IH)
  have b: "streakLoop tz es cur s \<le> s + length es"
    by (rule Cons.IH)
  show ?case using a b by (simp add: Let_def)
qed

lemma length_recentCompleted:
  "length (recentCompleted db hid) = min 100 (length (filter (\<lambda>e. habitId e = hid \<and> completed e) db))"
  by (simp add: recentCompleted_def min_def)

lemma getCurrentStreak_le_recent:
  "getCurrentStreak tz now db hid \<le> length (recentCompleted db hid)"
proof (cases "recentCompleted db hid = []")
  case True
  then show ?thesis by (simp add: getCurrentStreak_def)
next
  case False
  then show ?thesis
    using streakLoop_le[of tz "recentCompleted db hid" _ 0]
    by (simp add: getCurrentStreak_def Let_def)
qed





















lemma habitReport_found:
  assumes h: "find (\<lambda>h. habit_id h = hid \<and> habit_userId h = user) habitsDb = Some habit"
      and d: "parseInt (queryDays daysQ) = Some ndays"
  shows "habitReport tz now habitsDb db user hid daysQ =
          Inr \<lparr>summary =
                 \<lparr>totalDays = ndays,
                  trackedDays = length (sort_key date (habitWindow now db user hid ndays)),
                  completedDays = length (filter completed (sort_key date (habitWindow now db user hid ndays))),
                  completionRate = Math_round (habitRate (sort_key date (habitWindow now db user hid ndays))),
                  currentStreak = getCurrentStreak tz now db hid,
                  longestStreak = longestLoop (sort_key date (habitWindow now db user hid ndays)) 0 0,
                  averageMood = roundedAverage (fieldAverage mood (sort_key date (habitWindow now db user hid ndays))),
                  averageDifficulty = roundedAverage (fieldAverage difficulty (sort_key date (habitWindow now db user hid ndays)))\<rparr>,
               predictions = generatePredictions now (sort_key date (habitWindow now db user hid ndays)) habit
                               (getCurrentStreak tz now db hid),
               insights = generateInsights (sort_key date (habitWindow now db user hid ndays)) habit
                            (habitRate (sort_key date (habitWindow now db user hid ndays))) (getCurrentStreak tz now db hid)\<rparr>"
  unfolding habitReport_def Let_def habitWindow_def by (simp only: h d option.case)


















lemma groupSizeOf_pos: "0 < groupSizeOf groupBy"
  by (simp add: groupSizeOf_def)

lemma length_filter_split:
  "a \<le> b \<Longrightarrow>
   length (filter (\<lambda>e. a \<le> date e \<and> date e < min b c) es)
     + length (filter (\<lambda>e. b \<le> date e \<and> date e < c) es)
   = length (filter (\<lambda>e. a \<le> date e \<and> date e < c) es)"
  by (induction es) auto

lemma trendBucket_total:
  "trendBucket habitsDb groupBy habits entries startDate endDate i = Inr b \<Longrightarrow>
   totalEntries b =
     length (filter (\<lambda>e. startDate + i * msPerDay \<le> date e
                          \<and> date e < min (startDate + i * msPerDay + groupSizeOf groupBy * msPerDay) endDate)
                    entries)"
  by (auto simp: trendBucket_def Let_def split: if_splits)

lemma trendsLoop_total:
  "endDate = startDate + ndays * msPerDay \<Longrightarrow>
   trendsLoop habitsDb groupBy habits entries startDate endDate ndays i = Inr bs \<Longrightarrow>
   sum_list (map totalEntries bs) =
     length (filter (\<lambda>e. startDate + i * msPerDay \<le> date e \<and> date e < endDate) entries)"
proof (induction habitsDb groupBy habits entries startDate endDate ndays i arbitrary: bs
        rule: trendsLoop.induct)
  case (1 habitsDb groupBy habits entries startDate endDate ndays i)
  note e = "1.prems"(1)
  show ?case
  proof (cases "i < ndays")
    case False
    then have "bs = []" using "1.prems"(2) by (subst (asm) trendsLoop.simps) simp
    moreover have "ndays * msPerDay \<le> i * msPerDay"
      using False msPerDay_pos by (intro mult_right_mono) simp_all
    then have "filter (\<lambda>e. startDate + i * msPerDay \<le> date e \<and> date e < endDate) entries = []"
      unfolding e by (auto simp: filter_empty_conv)
    ultimately show ?thesis by simp
  next
    case True
    let ?g = "groupSizeOf groupBy"
    from "1.prems"(2) True obtain b bs' where
      b: "trendBucket habitsDb groupBy habits entries startDate endDate i = Inr b"
      and r: "trendsLoop habitsDb groupBy habits entries startDate endDate ndays (i + ?g) = Inr bs'"
      and bs: "bs = b # bs'"
      by (subst (asm) trendsLoop.simps) (auto split: sum.splits)
    have ih: "sum_list (map totalEntries bs') =
           length (filter (\<lambda>e. startDate + (i + ?g) * msPerDay \<le> date e \<and> date e < endDate) entries)"
      by (rule "1.IH"[OF True b e r])
    have s: "startDate + (i + ?g) * msPerDay = startDate + i * msPerDay + ?g * msPerDay"
      by (simp add: algebra_simps)
    have "0 \<le> ?g * msPerDay"
      using groupSizeOf_pos[of groupBy] msPerDay_pos by (intro mult_nonneg_nonneg) simp_all
    then have le: "startDate + i * msPerDay \<le> startDate + i * msPerDay + ?g * msPerDay"
      by simp
    show ?thesis
      unfolding bs using trendBucket_total[OF b] ih length_filter_split[OF le, of endDate entries]
      unfolding s by simp
  qed
qed

lemma trendBucket_returns:
  "habits = [] \<or> (\<forall>e\<in>set entries. populate habitsDb e \<noteq> None) \<Longrightarrow>
   \<exists>b. trendBucket habitsDb groupBy habits entries startDate endDate i = Inr b"
  by (auto simp: trendBucket_def Let_def list_ex_iff)

lemma trendsLoop_returns:
  "habits = [] \<or> (\<forall>e\<in>set entries. populate habitsDb e \<noteq> None) \<Longrightarrow>
   \<exists>bs. trendsLoop habitsDb groupBy habits entries startDate endDate ndays i = Inr bs"
proof (induction habitsDb groupBy habits entries startDate endDate ndays i
        rule: trendsLoop.induct)
  case (1 habitsDb groupBy habits entries startDate endDate ndays i)
  show ?case
  proof (cases "i < ndays")
    case False
    then show ?thesis by (subst trendsLoop.simps) simp
  next
    case True
    from trendBucket_returns[OF "1.prems"] obtain b where
      b: "trendBucket habitsDb groupBy habits entries startDate endDate i = Inr b" by blast
    from "1.IH"[OF True b "1.prems"] obtain bs where
      "trendsLoop habitsDb groupBy habits entries startDate endDate ndays (i + groupSizeOf groupBy)
         = Inr bs" by blast
    with b True show ?thesis by (subst trendsLoop.simps) simp
  qed
qed

lemma trends_total:
  assumes "\<forall>e\<in>set db. populate habitsDb e \<noteq> None"
  shows "\<exists>bs. trendsRoute now habitsDb db user periodQ groupByQ = Inr bs
           \<and> sum_list (map totalEntries bs) =
               length (filter (\<lambda>e. date e < now)
                 (trendsEntries now db user
                    (periodDays (case periodQ of None \<Rightarrow> ''month'' | Some p \<Rightarrow> p))))"
proof -
  let ?n = "periodDays (case periodQ of None \<Rightarrow> ''month'' | Some p \<Rightarrow> p)"
  let ?g = "case groupByQ of None \<Rightarrow> ''week'' | Some g \<Rightarrow> g"
  let ?es = "trendsEntries now db user ?n"
  have "\<forall>e\<in>set ?es. populate habitsDb e \<noteq> None"
    using assms by (simp add: trendsEntries_def)
  then have "activeHabits habitsDb user = [] \<or> (\<forall>e\<in>set ?es. populate habitsDb e \<noteq> None)" ..
  from trendsLoop_returns[OF this] obtain bs where
    bs: "trendsLoop habitsDb ?g (activeHabits habitsDb user) ?es (now - ?n * msPerDay) now ?n 0 = Inr bs"
    by blast
  have e: "now = now - ?n * msPerDay + ?n * msPerDay" by simp
  have "sum_list (map totalEntries bs) =
          length (filter (\<lambda>e. now - ?n * msPerDay + 0 * msPerDay \<le> date e \<and> date e < now) ?es)"
    by (rule trendsLoop_total[OF e bs])
  also have "\<dots> = length (filter (\<lambda>e. date e < now) ?es)"
    by (simp add: trendsEntries_def conj_commute cong: conj_cong)
  finally have "sum_list (map totalEntries bs) = length (filter (\<lambda>e. date e < now) ?es)" .
  moreover have "trendsRoute now habitsDb db user periodQ groupByQ = Inr bs"
    unfolding trendsRoute_def Let_def using bs by simp
  ultimately show ?thesis by blast
qed

section \<open>Milestones (claim C9)\<close>



section \<open>Insights (claim C5)\<close>



section \<open>The current streak (claims C3 and C10)\<close>

text \<open>
  C10. The current streak is computed from at most the 100 latest completed entries of
  the habit, so it is never more than 100, whatever the true run of completed days; it
  is at least 0 and at most the number of the habit's records.
\<close>

theorem currentStreak_capped:
  "0 \<le> getCurrentStreak tz now db hid
   \<and> getCurrentStreak tz now db hid \<le> 100
   \<and> getCurrentStreak tz now db hid \<le> length (filter (\<lambda>e. habitId e = hid \<and> completed e) db)
   \<and> getCurrentStreak tz now db hid \<le> length (filter (\<lambda>e. habitId e = hid) db)
   \<and> length (recentCompleted db hid) \<le> 100"
proof -
  have l: "length (filter (\<lambda>e. habitId e = hid \<and> completed e) db)
           \<le> length (filter (\<lambda>e. habitId e = hid) db)"
  proof -
    have "filter (\<lambda>e. habitId e = hid \<and> completed e) db
          = filter completed (filter (\<lambda>e. habitId e = hid) db)"
      by (simp add: conj_commute)
    then show ?thesis by (simp del: filter_filter)
  qed
  show ?thesis
    using getCurrentStreak_le_recent[of tz now db hid] length_recentCompleted[of db hid] l
    by simp
qed




section \<open>Window parameters (claim C7)\<close>




section \<open>Completion rates (claim C2)\<close>



section \<open>Streak target prediction (claim C4)\<close>




section \<open>Mood and difficulty averages (claim C8)\<close>

text \<open>
  C8. The averages are to be the mean over the records that are completed and have the
  field set. On a window with a mood of 1 on a day not completed and a mood of 5 on a
  completed day, \<open>getHabitAnalytics\<close> reports 3, the mean over both, where the habit
  route reports 5; likewise 3 instead of 4 for the difficulty.
\<close>

theorem habit_analytics_average_evaluated:
  "ha_averageMood (getHabitAnalytics 0 (20000 * msPerDay + 3600000) moodDb 1 30) = Some 3
   \<and> ha_averageDifficulty (getHabitAnalytics 0 (20000 * msPerDay + 3600000) moodDb 1 30) = Some 3
   \<and> (\<exists>r. habitReport 0 (20000 * msPerDay + 3600000) [someHabit] moodDb 1 1 None = Inr r
          \<and> averageMood (summary r) = Some 5 \<and> averageDifficulty (summary r) = Some 4)"
proof -
  let ?now = "20000 * msPerDay + 3600000"
  have m: "filter (\<lambda>e. habitId e = 1 \<and> ?now - 30 * msPerDay \<le> date e \<and> date e \<le> ?now) moodDb
           = moodDb"
    by (simp add: moodDb_def msPerDay_def)
  have a: "ha_averageMood (getHabitAnalytics 0 ?now moodDb 1 30) = mongoAvg (map mood moodDb)"
          "ha_averageDifficulty (getHabitAnalytics 0 ?now moodDb 1 30)
             = mongoAvg (map difficulty moodDb)"
    unfolding getHabitAnalytics_def Let_def m by (simp_all add: moodDb_def)
  have g: "mongoAvg (map mood moodDb) = Some 3" "mongoAvg (map difficulty moodDb) = Some 3"
    by (simp_all add: mongoAvg_def moodDb_def)
  have f: "find (\<lambda>h. habit_id h = 1 \<and> habit_userId h = 1) [someHabit] = Some someHabit"
    by (simp add: someHabit_def)
  have p: "parseInt (queryDays None) = Some 30"
    by (simp add: queryDays_def parseInt_30)
  have w: "sort_key date (habitWindow ?now moodDb 1 1 30) = moodDb"
    by (simp add: habitWindow_def moodDb_def msPerDay_def)
  have r: "roundedAverage (fieldAverage mood moodDb) = Some 5"
          "roundedAverage (fieldAverage difficulty moodDb) = Some 4"
    by (simp_all add: roundedAverage_def fieldAverage_def truthy_def moodDb_def Math_round_def)
  show ?thesis
    unfolding a g habitReport_found[OF f p] w by (simp add: r)
qed

section \<open>The heatmap of a year (claim C1)\<close>




section \<open>Trend buckets (claim C6)\<close>

text \<open>
  C6. The entry counts of the buckets are to add up to the number of records of the
  window. For a request at the instant a record is dated, the record is in the window,
  which is closed at its end, and in no bucket, the last bucket being open at its end:
  the counts of the seven day buckets of a week add up to 0 with one record in the
  window. By \<open>trends_total\<close> the counts always add up to the number of records dated
  before the end of the window.
\<close>

theorem trends_boundary_record_evaluated:
  "\<exists>bs. trendsRoute (20000 * msPerDay) [someHabit] midnightDb 1 (Some ''week'') (Some ''day'') = Inr bs
      \<and> sum_list (map totalEntries bs) = 0
      \<and> length (trendsEntries (20000 * msPerDay) midnightDb 1 (periodDays ''week'')) = 1"
proof -
  have p: "\<forall>e\<in>set midnightDb. populate [someHabit] e \<noteq> None"
    by (simp add: midnightDb_def dayEntry_def populate_def someHabit_def)
  have w: "trendsEntries (20000 * msPerDay) midnightDb 1 (periodDays ''week'') = midnightDb"
    by (simp add: trendsEntries_def midnightDb_def dayEntry_def periodDays_def msPerDay_def)
  have f: "filter (\<lambda>e. date e < 20000 * msPerDay) midnightDb = []"
    by (simp add: midnightDb_def dayEntry_def)
  from trends_total[OF p, of "20000 * msPerDay" 1 "Some ''week''" "Some ''day''"]
  obtain bs where
    "trendsRoute (20000 * msPerDay) [someHabit] midnightDb 1 (Some ''week'') (Some ''day'') = Inr bs"
    "sum_list (map totalEntries bs) = 0"
    unfolding option.case w f by auto
  moreover have "length (trendsEntries (20000 * msPerDay) midnightDb 1 (periodDays ''week'')) = 1"
    unfolding w by (simp add: midnightDb_def)
  ultimately show ?thesis by blast
qed

end
